theory Spec2Isabelle
  imports Main "HOL-Library.Word" "HOL-Library.Signed_Division"
begin

section \<open>Machine integers of the drivers\<close>

text \<open>
  The drivers are C code for 32-bit ARM hosts: \<open>u8\<close>, \<open>u16\<close>, \<open>s16\<close> are words of
  that width, \<open>int\<close> and \<open>unsigned\<close> are 32-bit words.  A signed value is read
  with \<open>sint\<close>, an unsigned one with \<open>uint\<close>/\<open>unat\<close>.
\<close>

type_synonym u8 = "8 word"
type_synonym u16 = "16 word"
type_synonym s16 = "16 word"
type_synonym s32 = "32 word"
type_synonym u32 = "32 word"

text \<open>C division of two \<open>int\<close>s: the quotient is truncated towards zero.\<close>

definition s32_div :: "s32 \<Rightarrow> s32 \<Rightarrow> s32" where
  "s32_div a b = word_of_int (sint a sdiv sint b)"

text \<open>The errno value behind \<open>-EINVAL\<close>.\<close>

definition EINVAL :: s32 where
  "EINVAL = 22"

section \<open>The SMBus as the drivers see it\<close>

text \<open>
  \<open>i2c_smbus_read_word_data\<close> and \<open>i2c_smbus_write_word_data\<close> belong to the kernel.
  A client is modelled by what the bus answers (for a read: a negative errno or the word
  read; for a write: a negative errno or 0) and by the list of transfers done so far, in
  order, so that every bus access of a driver function is visible in its result.
\<close>

datatype i2c_xfer = ReadWord u8 | WriteWord u8 u16

record i2c_client =
  read_word_result :: "u8 \<Rightarrow> s32"
  write_word_result :: "u8 \<Rightarrow> u16 \<Rightarrow> s32"
  xfers :: "i2c_xfer list"

definition i2c_smbus_read_word_data :: "i2c_client \<Rightarrow> u8 \<Rightarrow> s32 \<times> i2c_client" where
  "i2c_smbus_read_word_data c command =
     (read_word_result c command, c\<lparr>xfers := xfers c @ [ReadWord command]\<rparr>)"

definition i2c_smbus_write_word_data :: "i2c_client \<Rightarrow> u8 \<Rightarrow> u16 \<Rightarrow> s32 \<times> i2c_client" where
  "i2c_smbus_write_word_data c command v =
     (write_word_result c command v, c\<lparr>xfers := xfers c @ [WriteWord command v]\<rparr>)"

section \<open>mindsensors.com 8-channel servo motor controller\<close>

text \<open>
  \<open>struct ms_8ch_servo_data\<close>: the channel number \<open>id\<close> (an \<open>int\<close>, set to 0..7 by the
  probe callback) and the I2C client reached through \<open>servo->sensor->client\<close>.  The
  port name and the servo class device play no part in the four operations.
\<close>

record ms_8ch_servo_data =
  servo_id :: s32
  client :: i2c_client

text \<open>The register argument is an \<open>int\<close> expression passed as a \<open>u8\<close> command.\<close>

definition ms_8ch_servo_get_position :: "ms_8ch_servo_data \<Rightarrow> s32 \<times> ms_8ch_servo_data" where
  "ms_8ch_servo_get_position servo =
     (let (ret, c) = i2c_smbus_read_word_data (client servo) (ucast (0x42 + servo_id servo * 2))
      in (ret, servo\<lparr>client := c\<rparr>))"

definition ms_8ch_servo_set_position :: "ms_8ch_servo_data \<Rightarrow> s32 \<Rightarrow> s32 \<times> ms_8ch_servo_data" where
  "ms_8ch_servo_set_position servo v =
     (let (ret, c) = i2c_smbus_write_word_data (client servo)
                       (ucast (0x42 + servo_id servo * 2)) (ucast v)
      in (ret, servo\<lparr>client := c\<rparr>))"

text \<open>
  The register expressions of the two rate operations, \<open>0x52 + servo->id\<close> in
  \<open>get_rate\<close> and \<open>0x52 + servo->id * 2\<close> in \<open>set_rate\<close>.
\<close>

definition get_rate_reg :: "s32 \<Rightarrow> u8" where
  "get_rate_reg i = ucast (0x52 + i)"

definition set_rate_reg :: "s32 \<Rightarrow> u8" where
  "set_rate_reg i = ucast (0x52 + i * 2)"

definition ms_8ch_servo_get_rate :: "ms_8ch_servo_data \<Rightarrow> s32 \<times> ms_8ch_servo_data" where
  "ms_8ch_servo_get_rate servo =
     (let (ret, c) = i2c_smbus_read_word_data (client servo) (get_rate_reg (servo_id servo));
          servo' = servo\<lparr>client := c\<rparr>
      in if ret <s 0 then (ret, servo')
         else if ret = 0 then (0, servo')
         else (s32_div 24000 ret, servo'))"

text \<open>
  \<open>rate_to_period\<close> is the \<open>if\<close> chain of \<open>set_rate\<close> that computes \<open>scaled\<close>.
  \<open>value\<close> is \<open>unsigned\<close>: the comparisons and the division are unsigned, and the
  quotient is stored in the \<open>int scaled\<close>, which the write takes as a \<open>u16\<close>.
\<close>

definition rate_to_period :: "u32 \<Rightarrow> s32" where
  "rate_to_period v =
     (if v \<ge> 24000 then 1
      else if v < 94 then 0
      else 24000 div v)"

definition ms_8ch_servo_set_rate :: "ms_8ch_servo_data \<Rightarrow> u32 \<Rightarrow> s32 \<times> ms_8ch_servo_data" where
  "ms_8ch_servo_set_rate servo v =
     (let scaled = rate_to_period v;
          (ret, c) = i2c_smbus_write_word_data (client servo)
                       (set_rate_reg (servo_id servo)) (ucast scaled)
      in (ret, servo\<lparr>client := c\<rparr>))"

definition servo_at :: "s32 \<Rightarrow> s32 \<Rightarrow> ms_8ch_servo_data" where
  \<comment> \<open>channel \<open>i\<close> of a controller whose every word read answers \<open>p\<close>, nothing transferred yet\<close>
  "servo_at i p =
     \<lparr>servo_id = i,
      client = \<lparr>read_word_result = (\<lambda>_. p), write_word_result = (\<lambda>_ _. 0), xfers = []\<rparr>\<rparr>"

section \<open>Sensor mode descriptors\<close>

text \<open>
  \<open>struct lego_sensor_mode_info\<close> with the fields the sensor definitions and callbacks of
  the driver use.  \<open>scale\<close> is a function pointer: the custom scale function of the mode,
  or NULL for the default linear scaler.  \<open>raw_data\<close> is the byte buffer of the last
  sample.
\<close>

datatype lego_sensor_data_type =
  LEGO_SENSOR_DATA_U8 | LEGO_SENSOR_DATA_S8 | LEGO_SENSOR_DATA_U16 |
  LEGO_SENSOR_DATA_S16 | LEGO_SENSOR_DATA_S16_BE | LEGO_SENSOR_DATA_S32

datatype scale_fn = MS_IMU_SCALE | MI_XG1300L_SCALE

record lego_sensor_mode_info =
  name :: string
  raw_min :: s32
  raw_max :: s32
  si_min :: s32
  si_max :: s32
  decimals :: nat
  data_sets :: nat
  data_type :: lego_sensor_data_type
  units :: string
  scale :: "scale_fn option"
  raw_data :: "u8 list"

text \<open>
  The size of the raw data buffer is declared in a header of the sensor class; no
  statement below depends on its value.
\<close>

definition LEGO_SENSOR_RAW_DATA_SIZE :: nat where
  "LEGO_SENSOR_RAW_DATA_SIZE = 32"

text \<open>A designated initialiser leaves every field it does not name zero.\<close>

definition zero_mode_info :: lego_sensor_mode_info where
  "zero_mode_info =
     \<lparr>name = [], raw_min = 0, raw_max = 0, si_min = 0, si_max = 0, decimals = 0,
      data_sets = 0, data_type = LEGO_SENSOR_DATA_U8, units = [], scale = None,
      raw_data = replicate LEGO_SENSOR_RAW_DATA_SIZE 0\<rparr>"

text \<open>
  \<open>struct lego_sensor_device\<close> (the mode table and the selected mode) inside
  \<open>struct nxt_i2c_sensor_data\<close>.  \<open>callback_data\<close> is the driver-private pointer; for the
  XG1300L it points to the \<open>u8\<close> scaling factor allocated by the probe callback, and the
  model holds that byte.
\<close>

record lego_sensor_device =
  mode_info :: "lego_sensor_mode_info list"
  mode :: u8

record nxt_i2c_sensor_data =
  sensor :: lego_sensor_device
  callback_data :: u8

text \<open>
  The value a scale function leaves: its return code and what it stored in \<open>*value\<close>;
  \<open>None\<close> when it read outside the raw data buffer.  In the scale functions
  \<open>minfo\<close> stands for the parameter \<open>mode_info\<close>.
\<close>

type_synonym scale_result = "(s32 \<times> s32) option"

section \<open>mindsensors.com Absolute-IMU\<close>

definition ms_imu_tilt2deg :: "u8 list" where
  "ms_imu_tilt2deg =
   [0, 0, 1, 1, 2, 2, 3, 3, 4, 4, 4, 5, 5, 6, 6, 7, 7, 8, 8, 9, 9, 9, 10, 10, 11, 11,
    12, 12, 13, 13, 14, 14, 14, 15, 15, 16, 16, 17, 17, 18, 18, 19, 19, 20, 20, 21, 21,
    22, 22, 23, 23, 23, 24, 24, 25, 25, 26, 26, 27, 27, 28, 28, 29, 29, 30, 31, 31, 32,
    32, 33, 33, 34, 34, 35, 35, 36, 36, 37, 38, 38, 39, 39, 40, 40, 41, 42, 42, 43, 43,
    44, 45, 45, 46, 47, 47, 48, 49, 49, 50, 51, 51, 52, 53, 54, 54, 55, 56, 57, 58, 58,
    59, 60, 61, 62, 63, 64, 65, 66, 67, 68, 70, 71, 72, 74, 76, 78, 80, 83, 90, 97,
    100, 102, 104, 106, 108, 109, 110, 112, 113, 114, 115, 116, 117, 118, 119, 120,
    121, 122, 122, 123, 124, 125, 126, 126, 127, 128, 129, 129, 130, 131, 131, 132,
    133, 133, 134, 135, 135, 136, 137, 137, 138, 138, 139, 140, 140, 141, 141, 142,
    142, 143, 144, 144, 145, 145, 146, 146, 147, 147, 148, 148, 149, 149, 150, 151,
    151, 152, 152, 153, 153, 154, 154, 155, 155, 156, 156, 157, 157, 157, 158, 158,
    159, 159, 160, 160, 161, 161, 162, 162, 163, 163, 164, 164, 165, 165, 166, 166,
    166, 167, 167, 168, 168, 169, 169, 170, 170, 171, 171, 171, 172, 172, 173, 173,
    174, 174, 175, 175, 176, 176, 176, 177, 177, 178, 178, 179, 179, 180]"

definition ms_imu_scale :: "'ctx \<Rightarrow> lego_sensor_mode_info \<Rightarrow> u8 \<Rightarrow> scale_result" where
  "ms_imu_scale context minfo index =
     (if unat index < length (raw_data minfo)
      then Some (0, ucast (ms_imu_tilt2deg ! unat (raw_data minfo ! unat index)))
      else None)"

definition set_gyro_range :: "nxt_i2c_sensor_data \<Rightarrow> s32 \<Rightarrow> s32 \<Rightarrow> nxt_i2c_sensor_data" where
  \<comment> \<open>the two assignments through \<open>gyro_mode_info = &sensor->sensor.mode_info[4]\<close>\<close>
  "set_gyro_range s rmax smax =
     s\<lparr>sensor := (sensor s)\<lparr>mode_info :=
         (mode_info (sensor s))[4 := (mode_info (sensor s) ! 4)\<lparr>raw_max := rmax, si_max := smax\<rparr>]\<rparr>\<rparr>"

text \<open>
  The \<open>switch\<close> of the callback has the labels 1, 2 and the pair 4, 5, and no default:
  any other command leaves the sensor data as it is.
\<close>

definition ms_imu_send_cmd_post_cb :: "nxt_i2c_sensor_data \<Rightarrow> u8 \<Rightarrow> nxt_i2c_sensor_data" where
  "ms_imu_send_cmd_post_cb s command =
     (if command = 1 then set_gyro_range s 10000 875
      else if command = 2 then set_gyro_range s 1000 175
      else if command = 4 \<or> command = 5 then set_gyro_range s 1000 700
      else s)"

text \<open>The sensor definition \<open>nxt_i2c_sensor_defs[MS_ABSOLUTE_IMU]\<close>: modes and command names.\<close>

definition ms_absolute_imu_mode_info :: "lego_sensor_mode_info list" where
  "ms_absolute_imu_mode_info =
    [zero_mode_info\<lparr>name := ''TILT'', scale := Some MS_IMU_SCALE, data_sets := 3,
       data_type := LEGO_SENSOR_DATA_U8, units := ''deg''\<rparr>,
     zero_mode_info\<lparr>name := ''ACCEL'', data_sets := 3, data_type := LEGO_SENSOR_DATA_S16,
       units := ''g'', decimals := 3\<rparr>,
     zero_mode_info\<lparr>name := ''COMPASS'', data_sets := 1, units := ''deg'',
       data_type := LEGO_SENSOR_DATA_U16\<rparr>,
     zero_mode_info\<lparr>name := ''MAG'', data_sets := 3, data_type := LEGO_SENSOR_DATA_S16\<rparr>,
     zero_mode_info\<lparr>name := ''GYRO'', raw_max := 10000, si_max := 875, decimals := 1,
       data_sets := 3, data_type := LEGO_SENSOR_DATA_S16, units := ''d/s''\<rparr>,
     zero_mode_info\<lparr>name := ''ALL'', data_sets := 23\<rparr>]"

definition ms_absolute_imu_cmd_info :: "string list" where
  "ms_absolute_imu_cmd_info =
    [''BEGIN-COMP-CAL'', ''END-COMP-CAL'', ''ACCEL-2G'', ''ACCEL-4G'', ''ACCEL-8G'', ''ACCEL-16G'']"

definition ms_absolute_imu :: nxt_i2c_sensor_data where
  \<comment> \<open>a freshly bound Absolute-IMU: the definition's modes, mode 0 selected\<close>
  "ms_absolute_imu = \<lparr>sensor = \<lparr>mode_info = ms_absolute_imu_mode_info, mode = 0\<rparr>, callback_data = 0\<rparr>"

text \<open>
  The (raw_max, si_max) pair of the gyro mode, and the pair that the comments on the
  \<open>case\<close> labels of the callback attach to each range command (\<open>/* ACCEL-2G */\<close> on
  (10000, 875), \<open>/* ACCEL-4G */\<close> on (1000, 175), \<open>/* ACCEL-8G */\<close> and
  \<open>/* ACCEL-16G */\<close> on (1000, 700)).
\<close>

definition gyro_pair :: "nxt_i2c_sensor_data \<Rightarrow> s32 \<times> s32" where
  "gyro_pair s = (raw_max (mode_info (sensor s) ! 4), si_max (mode_info (sensor s) ! 4))"

definition designated_pair :: "string \<Rightarrow> (s32 \<times> s32) option" where
  "designated_pair cmd =
     (if cmd = ''ACCEL-2G'' then Some (10000, 875)
      else if cmd = ''ACCEL-4G'' then Some (1000, 175)
      else if cmd = ''ACCEL-8G'' \<or> cmd = ''ACCEL-16G'' then Some (1000, 700)
      else None)"

section \<open>Microinfinity CruizCore XG1300L\<close>

text \<open>
  \<open>(s16*)mode_info->raw_data\<close>: the buffer read as 16-bit samples in host byte order,
  little-endian on the ARM hosts of the driver.
\<close>

definition raw_as_s16 :: "u8 list \<Rightarrow> nat \<Rightarrow> s16" where
  "raw_as_s16 raw i = word_cat (raw ! (2 * i + 1)) (raw ! (2 * i))"

text \<open>
  \<open>lego_sensor_default_scale\<close> is the sensor class's linear scaler; it is a parameter
  of the model.  The product is computed in \<open>int\<close> after the integer promotions.
\<close>

definition mi_xg1300l_scale ::
  "(lego_sensor_mode_info \<Rightarrow> u8 \<Rightarrow> scale_result) \<Rightarrow> nxt_i2c_sensor_data \<Rightarrow>
   lego_sensor_mode_info \<Rightarrow> u8 \<Rightarrow> scale_result" where
  "mi_xg1300l_scale lego_sensor_default_scale data minfo index =
     (if mode (sensor data) = 3 \<and> index < 2
      then lego_sensor_default_scale minfo index
      else if 2 * unat index + 1 < length (raw_data minfo)
      then Some (0, scast (raw_as_s16 (raw_data minfo) (unat index)) * ucast (callback_data data))
      else None)"

definition mi_xg1300l_send_cmd_post_cb :: "nxt_i2c_sensor_data \<Rightarrow> u8 \<Rightarrow> nxt_i2c_sensor_data" where
  "mi_xg1300l_send_cmd_post_cb data command =
     (if command = 0 \<or> command = 1 then data\<lparr>callback_data := 1\<rparr>
      else if command = 2 then data\<lparr>callback_data := 2\<rparr>
      else if command = 3 then data\<lparr>callback_data := 4\<rparr>
      else data)"

definition mi_xg1300l_probe_cb :: "nxt_i2c_sensor_data \<Rightarrow> s32 \<times> nxt_i2c_sensor_data" where
  "mi_xg1300l_probe_cb data = (0, data\<lparr>callback_data := 1\<rparr>)"

text \<open>The sensor definition \<open>nxt_i2c_sensor_defs[MI_CRUIZCORE_XG1300L]\<close>.\<close>

definition mi_cruizcore_xg1300l_mode_info :: "lego_sensor_mode_info list" where
  "mi_cruizcore_xg1300l_mode_info =
    [zero_mode_info\<lparr>name := ''ANGLE'', data_sets := 1, data_type := LEGO_SENSOR_DATA_S16,
       units := ''deg'', decimals := 2\<rparr>,
     zero_mode_info\<lparr>name := ''SPEED'', data_sets := 1, data_type := LEGO_SENSOR_DATA_S16,
       decimals := 2, units := ''d/s''\<rparr>,
     zero_mode_info\<lparr>name := ''ACCEL'', scale := Some MI_XG1300L_SCALE, data_sets := 3,
       units := ''g'', data_type := LEGO_SENSOR_DATA_S16, decimals := 3\<rparr>,
     zero_mode_info\<lparr>name := ''ALL'', scale := Some MI_XG1300L_SCALE, data_sets := 5,
       data_type := LEGO_SENSOR_DATA_S16\<rparr>]"

definition mi_cruizcore_xg1300l_cmd_info :: "string list" where
  "mi_cruizcore_xg1300l_cmd_info = [''RESET'', ''ACCEL-2G'', ''ACCEL-4G'', ''ACCEL-8G'']"

definition mi_cruizcore_xg1300l :: "u8 \<Rightarrow> u8 list \<Rightarrow> nxt_i2c_sensor_data" where
  \<comment> \<open>a probed XG1300L in mode \<open>m\<close> whose modes all hold the sample bytes \<open>raw\<close>\<close>
  "mi_cruizcore_xg1300l m raw =
     snd (mi_xg1300l_probe_cb
       \<lparr>sensor = \<lparr>mode_info = map (\<lambda>mi. mi\<lparr>raw_data := raw\<rparr>) mi_cruizcore_xg1300l_mode_info,
                  mode = m\<rparr>,
        callback_data = 0\<rparr>)"

section \<open>EV3 analog sensor driver\<close>

text \<open>
  The sources hold two generations of \<open>ev3_analog_sensor_set_mode\<close>.  The older driver
  sits on the legoev3 input port: it drives pin 5 and registers an analog callback.
  The operations reaching the port are kept in order in \<open>in_port\<close>.  The model of
  the older function carries the suffix \<open>_legoev3\<close>.
\<close>

datatype analog_cb_fn = EV3_ANALOG_SENSOR_CB | MODE_ANALOG_CB nat

datatype in_port_op = Set_pin5_gpio nat | Register_analog_cb analog_cb_fn

record ev3_analog_sensor_mode_info =
  pin5_state :: nat
  analog_cb :: "nat option"

record ev3_analog_sensor_data_legoev3 =
  as_num_modes :: u8
  as_analog_mode_info :: "ev3_analog_sensor_mode_info list"
  as_mode :: u8
  in_port :: "in_port_op list"

definition ev3_analog_sensor_set_mode_legoev3 ::
  "ev3_analog_sensor_data_legoev3 \<Rightarrow> u8 \<Rightarrow> s32 \<times> ev3_analog_sensor_data_legoev3" where
  "ev3_analog_sensor_set_mode_legoev3 as m =
     (if m \<ge> as_num_modes as then (- EINVAL, as)
      else
        let ami = as_analog_mode_info as ! unat m;
            cb = (case analog_cb ami of Some f \<Rightarrow> MODE_ANALOG_CB f | None \<Rightarrow> EV3_ANALOG_SENSOR_CB)
        in (0, as\<lparr>in_port := in_port as @ [Set_pin5_gpio (pin5_state ami), Register_analog_cb cb],
                  as_mode := m\<rparr>))"

text \<open>
  The current driver sits on the lego port class: it hands the port the raw data buffer
  of the mode (identified here by the mode's index) and its size.
  \<open>lego_sensor_get_raw_data_size\<close> belongs to the sensor class and is a parameter.  The
  function indexes \<open>mode_info\<close> without a check of its own.
\<close>

datatype lego_port_op = Set_raw_data_ptr_and_func u8 nat

record ev3_analog_sensor_data =
  info_num_modes :: u8
  info_mode_info :: "lego_sensor_mode_info list"
  ldev_port :: "lego_port_op list"

definition ev3_analog_sensor_set_mode ::
  "(lego_sensor_mode_info \<Rightarrow> nat) \<Rightarrow> ev3_analog_sensor_data \<Rightarrow> u8 \<Rightarrow>
   s32 \<times> ev3_analog_sensor_data" where
  "ev3_analog_sensor_set_mode lego_sensor_get_raw_data_size data m =
     (let minfo = info_mode_info data ! unat m
      in (- EINVAL,
          data\<lparr>ldev_port := ldev_port data @
             [Set_raw_data_ptr_and_func m (lego_sensor_get_raw_data_size minfo)]\<rparr>))"

definition one_mode_sensor_legoev3 :: ev3_analog_sensor_data_legoev3 where
  \<comment> \<open>a one-mode sensor on the legoev3 port, nothing sent to the port yet\<close>
  "one_mode_sensor_legoev3 =
     \<lparr>as_num_modes = 1, as_analog_mode_info = [\<lparr>pin5_state = 0, analog_cb = None\<rparr>],
      as_mode = 0, in_port = []\<rparr>"

definition one_mode_sensor :: ev3_analog_sensor_data where
  \<comment> \<open>a one-mode sensor on the lego port class, nothing handed to the port yet\<close>
  "one_mode_sensor =
     \<lparr>info_num_modes = 1, info_mode_info = [zero_mode_info],
      ldev_port = []\<rparr>"

section \<open>Arithmetic of the 32-bit integers\<close>

lemma sint_s32_of_int:
  assumes "- (2 ^ 31) \<le> k" and "k < 2 ^ 31"
  shows "sint (word_of_int k :: s32) = k"
  using assms by (simp add: sint_sbintrunc' signed_take_bit_int_eq_self)

lemma s32_div_pos:
  assumes "0 < sint p"
  shows "sint (s32_div 24000 p) = 24000 div sint p"
proof -
  have a: "(24000::int) sdiv sint p = 24000 div sint p"
    using assms by (simp add: signed_divide_int_def sgn_if)
  have lo: "0 \<le> (24000::int) div sint p"
    using assms by (simp add: pos_imp_zdiv_nonneg_iff)
  have hi: "(24000::int) div sint p \<le> 24000"
  proof -
    have "(24000::int) div sint p \<le> 24000 div 1"
      using assms by (intro zdiv_mono2) simp_all
    then show ?thesis by simp
  qed
  have "sint (word_of_int ((24000::int) div sint p) :: s32) = 24000 div sint p"
    using lo hi by (intro sint_s32_of_int) simp_all
  then show ?thesis
    by (simp add: s32_div_def a)
qed

lemma div_mult_bounds:
  assumes "0 < (p::int)"
  shows "k - p < k div p * p" and "k div p * p \<le> k"
proof -
  have eq: "k div p * p + k mod p = k"
    by simp
  have "k mod p < p" and "0 \<le> k mod p"
    using assms by simp_all
  then show "k - p < k div p * p" and "k div p * p \<le> k"
    using eq by linarith+
qed

lemma le_div_of_mult_le:
  assumes "0 < (b::int)" and "a * b \<le> k"
  shows "a \<le> k div b"
proof -
  have "a * b div b \<le> k div b"
    using assms by (intro zdiv_mono1)
  then show ?thesis using assms by simp
qed

lemma round_trip_int:
  fixes r :: int
  assumes "94 \<le> r" and "r < 24000"
  shows "1 \<le> 24000 div r" and "24000 div r \<le> 255"
    and "r \<le> 24000 div (24000 div r)"
    and "0 < q \<Longrightarrow> r \<le> 24000 div q \<Longrightarrow> 24000 div (24000 div r) \<le> 24000 div q"
proof -
  have rpos: "0 < r" using assms by simp
  show p1: "1 \<le> 24000 div r"
    using assms rpos by (intro le_div_of_mult_le) simp_all
  have "24000 div r \<le> 24000 div 94"
    using assms by (intro zdiv_mono2) simp_all
  then show "24000 div r \<le> 255" by simp
  have "24000 div r * r \<le> 24000"
    using div_mult_bounds(2) [OF rpos] .
  then have "r * (24000 div r) \<le> 24000" by (simp add: mult.commute)
  then show "r \<le> 24000 div (24000 div r)"
    using p1 by (intro le_div_of_mult_le) simp_all
  assume q: "0 < q" and rq: "r \<le> 24000 div q"
  have "24000 div q * q \<le> 24000"
    using div_mult_bounds(2) [OF q] .
  moreover have "r * q \<le> 24000 div q * q"
    using rq q by (intro mult_right_mono) simp_all
  ultimately have "q * r \<le> 24000" by (simp add: mult.commute)
  then have "q \<le> 24000 div r"
    using rpos by (intro le_div_of_mult_le) simp_all
  then show "24000 div (24000 div r) \<le> 24000 div q"
    using q by (intro zdiv_mono2) simp_all
qed

section \<open>Rate converter of the servo controller\<close>

lemma get_rate_value:
  assumes "read_word_result (client servo) (get_rate_reg (servo_id servo)) = p"
  shows "fst (ms_8ch_servo_get_rate servo) =
           (if p <s 0 then p else if p = 0 then 0 else s32_div 24000 p)"
  using assms by (simp add: ms_8ch_servo_get_rate_def i2c_smbus_read_word_data_def Let_def)

lemma get_rate_of_period:
  assumes "read_word_result (client servo) (get_rate_reg (servo_id servo)) = p"
    and "0 \<le> sint p"
  shows "sint (fst (ms_8ch_servo_get_rate servo)) = (if sint p = 0 then 0 else 24000 div sint p)"
proof (cases "p = 0")
  case True
  then show ?thesis by (simp add: get_rate_value [OF assms(1)])
next
  case False
  then have "sint p \<noteq> 0" by (simp add: signed_eq_0_iff)
  then have pos: "0 < sint p" using assms(2) by simp
  then have "\<not> p <s 0" by (simp add: word_sless_alt)
  then show ?thesis
    using False pos by (simp add: get_rate_value [OF assms(1)] s32_div_pos)
qed

lemma uint_rate_to_period:
  "uint (rate_to_period v) =
     (if 24000 \<le> uint v then 1 else if uint v < 94 then 0 else 24000 div uint v)"
  by (simp add: rate_to_period_def word_le_def word_less_def uint_div)

lemma period_le_255: "uint (rate_to_period v) \<le> 255"
  using round_trip_int(2) [of "uint v"] by (simp add: uint_rate_to_period)

lemma period_u16: "(ucast (ucast (rate_to_period v) :: u16) :: s32) = rate_to_period v"
proof -
  have "uint (rate_to_period v) < 2 ^ 16" using period_le_255 [of v] by simp
  then have "take_bit 16 (uint (rate_to_period v)) = uint (rate_to_period v)"
    by (simp add: take_bit_int_eq_self)
  then show ?thesis
    by (simp add: word_eq_iff_unsigned [where ?'a = int] unsigned_ucast_eq unsigned_take_bit_eq)
qed

lemma sint_small:
  assumes "uint (w::s32) < 2 ^ 31"
  shows "sint w = uint w"
proof -
  have "- (2 ^ 31) \<le> (0::int)"
    by simp
  then have "- (2 ^ 31) \<le> uint w"
    using uint_ge_0 [of w] by (rule order_trans)
  then have "signed_take_bit 31 (uint w) = uint w"
    using assms by (intro signed_take_bit_int_eq_self)
  then show ?thesis by (simp add: sint_uint)
qed

lemma sint_period: "sint (rate_to_period v) = uint (rate_to_period v)"
  using period_le_255 [of v] by (intro sint_small) simp

lemma id_cases:
  assumes "0 \<le>s (i::s32)" and "i \<le>s 7"
  shows "i \<in> {0, 1, 2, 3, 4, 5, 6, 7}"
proof -
  have "0 \<le> sint i" "sint i \<le> 7" using assms by (simp_all add: word_sle_eq)
  then have "sint i \<in> {0, 1, 2, 3, 4, 5, 6, 7}" by auto
  then have "(word_of_int (sint i) :: s32) \<in> word_of_int ` {0, 1, 2, 3, 4, 5, 6, 7}"
    by (rule imageI)
  then show ?thesis by simp
qed

lemma rate_regs:
  assumes "0 \<le>s (i::s32)" and "i \<le>s 7"
  shows "uint (set_rate_reg i) = 0x52 + 2 * sint i" and "uint (get_rate_reg i) = 0x52 + sint i"
    and "set_rate_reg i = get_rate_reg i \<longleftrightarrow> i = 0"
  using id_cases [OF assms] by (auto simp: set_rate_reg_def get_rate_reg_def)

text \<open>
  C3.  With K = 24000: when the period read from the device is 0, \<open>get_rate\<close> returns
  rate 0; when the period p read is positive it returns K / p (integer division), and
  the returned rate satisfies K - p < rate * p \<le> K.
\<close>

theorem get_rate_converts_period:
  assumes "read_word_result (client servo) (get_rate_reg (servo_id servo)) = p"
  shows "(p = 0 \<longrightarrow> fst (ms_8ch_servo_get_rate servo) = 0) \<and>
         (0 < sint p \<longrightarrow>
            sint (fst (ms_8ch_servo_get_rate servo)) = 24000 div sint p \<and>
            24000 - sint p < sint (fst (ms_8ch_servo_get_rate servo)) * sint p \<and>
            sint (fst (ms_8ch_servo_get_rate servo)) * sint p \<le> 24000)"
proof (intro conjI impI)
  assume "p = 0"
  then show "fst (ms_8ch_servo_get_rate servo) = 0"
    by (simp add: get_rate_value [OF assms])
next
  assume pos: "0 < sint p"
  then have "0 \<le> sint p" and "sint p \<noteq> 0"
    by simp_all
  then have r: "sint (fst (ms_8ch_servo_get_rate servo)) = 24000 div sint p"
    by (simp add: get_rate_of_period [OF assms])
  show "sint (fst (ms_8ch_servo_get_rate servo)) = 24000 div sint p"
    by (fact r)
  show "24000 - sint p < sint (fst (ms_8ch_servo_get_rate servo)) * sint p"
    using div_mult_bounds(1) [OF pos, of 24000] by (simp add: r)
  show "sint (fst (ms_8ch_servo_get_rate servo)) * sint p \<le> 24000"
    using div_mult_bounds(2) [OF pos, of 24000] by (simp add: r)
qed

theorem get_rate_converts_period_witness:
  "read_word_result (client (servo_at 0 100)) (get_rate_reg (servo_id (servo_at 0 100))) = 100 \<and>
   (0::int) < sint (100::s32) \<and>
   sint (fst (ms_8ch_servo_get_rate (servo_at 0 100))) = 240 \<and>
   fst (ms_8ch_servo_get_rate (servo_at 0 0)) = 0"
  using get_rate_converts_period [of "servo_at 0 100" 100]
        get_rate_converts_period [of "servo_at 0 0" 0]
  by (simp add: servo_at_def)

text \<open>
  C7.  When the bus read behind a read operation of the servo controller (\<open>get_rate\<close>,
  \<open>get_position\<close>) answers a negative error code, the operation returns that code
  unchanged and leaves the servo data as it was, apart from the record of the single
  read that failed: no second read, no write, and for \<open>get_rate\<close> no division.
\<close>

theorem bus_error_propagated:
  "(read_word_result (client servo) (get_rate_reg (servo_id servo)) = e \<and> e <s 0 \<longrightarrow>
      ms_8ch_servo_get_rate servo =
        (e, servo\<lparr>client := (client servo)\<lparr>xfers := xfers (client servo) @
              [ReadWord (get_rate_reg (servo_id servo))]\<rparr>\<rparr>)) \<and>
   (read_word_result (client servo) (ucast (0x42 + servo_id servo * 2)) = e \<and> e <s 0 \<longrightarrow>
      ms_8ch_servo_get_position servo =
        (e, servo\<lparr>client := (client servo)\<lparr>xfers := xfers (client servo) @
              [ReadWord (ucast (0x42 + servo_id servo * 2))]\<rparr>\<rparr>))"
  by (simp add: ms_8ch_servo_get_rate_def ms_8ch_servo_get_position_def
      i2c_smbus_read_word_data_def Let_def)

theorem bus_error_propagated_witness:
  "read_word_result (client (servo_at 3 (- 5))) (get_rate_reg (servo_id (servo_at 3 (- 5)))) = - 5 \<and>
   (- 5 :: s32) <s 0 \<and>
   fst (ms_8ch_servo_get_rate (servo_at 3 (- 5))) = - 5 \<and>
   xfers (client (snd (ms_8ch_servo_get_rate (servo_at 3 (- 5))))) = [ReadWord 0x55] \<and>
   fst (ms_8ch_servo_get_position (servo_at 3 (- 5))) = - 5 \<and>
   xfers (client (snd (ms_8ch_servo_get_position (servo_at 3 (- 5))))) = [ReadWord 0x48]"
  using bus_error_propagated [of "servo_at 3 (- 5)" "- 5"]
  by (simp add: servo_at_def get_rate_reg_def word_sless_alt)

text \<open>
  C10.  For a channel id in [0, 7], \<open>set_rate\<close> writes the period to register
  0x52 + 2 * id and \<open>get_rate\<close> reads the period from register 0x52 + id; the two
  registers are the same exactly when id = 0.
\<close>

theorem rate_registers:
  assumes "0 \<le>s servo_id servo" and "servo_id servo \<le>s 7"
  shows "xfers (client (snd (ms_8ch_servo_set_rate servo v))) =
           xfers (client servo) @
             [WriteWord (set_rate_reg (servo_id servo)) (ucast (rate_to_period v))] \<and>
         uint (set_rate_reg (servo_id servo)) = 0x52 + 2 * sint (servo_id servo) \<and>
         xfers (client (snd (ms_8ch_servo_get_rate servo))) =
           xfers (client servo) @ [ReadWord (get_rate_reg (servo_id servo))] \<and>
         uint (get_rate_reg (servo_id servo)) = 0x52 + sint (servo_id servo) \<and>
         (set_rate_reg (servo_id servo) = get_rate_reg (servo_id servo) \<longleftrightarrow> servo_id servo = 0)"
proof (intro conjI)
  show "xfers (client (snd (ms_8ch_servo_set_rate servo v))) =
           xfers (client servo) @
             [WriteWord (set_rate_reg (servo_id servo)) (ucast (rate_to_period v))]"
    by (simp add: ms_8ch_servo_set_rate_def i2c_smbus_write_word_data_def Let_def)
  show "xfers (client (snd (ms_8ch_servo_get_rate servo))) =
           xfers (client servo) @ [ReadWord (get_rate_reg (servo_id servo))]"
    by (simp add: ms_8ch_servo_get_rate_def i2c_smbus_read_word_data_def Let_def)
qed (use rate_regs [OF assms] in simp_all)

theorem rate_registers_witness:
  "(0::s32) \<le>s servo_id (servo_at 3 0) \<and> servo_id (servo_at 3 0) \<le>s 7 \<and>
   xfers (client (snd (ms_8ch_servo_set_rate (servo_at 3 0) 500))) = [WriteWord 0x58 48] \<and>
   xfers (client (snd (ms_8ch_servo_get_rate (servo_at 3 0)))) = [ReadWord 0x55]"
  using rate_registers [of "servo_at 3 0" 500]
  by (simp add: servo_at_def set_rate_reg_def get_rate_reg_def rate_to_period_def word_sle_eq)

text \<open>
  C8, as the code has it.  \<open>set_rate\<close> writes period 1 for a rate of 24000 or more,
  period 0 for a rate below 94 and otherwise 24000 / r (integer division), a value that
  fits the word written.  When \<open>get_rate\<close> reads that period back it returns 24000 for
  r \<ge> 24000, 0 for r < 94, and otherwise a rate that is not below r and is the least
  rate not below r that any positive period gives: the round trip rounds the request up
  to the next achievable rate, which need not be the nearest one.
\<close>

theorem set_rate_round_trip:
  "xfers (client (snd (ms_8ch_servo_set_rate servo v))) =
     xfers (client servo) @ [WriteWord (set_rate_reg (servo_id servo)) (ucast (rate_to_period v))] \<and>
   uint (ucast (rate_to_period v) :: u16) =
     (if 24000 \<le> uint v then 1 else if uint v < 94 then 0 else 24000 div uint v) \<and>
   (read_word_result (client servo') (get_rate_reg (servo_id servo')) =
       ucast (ucast (rate_to_period v) :: u16) \<longrightarrow>
     (24000 \<le> uint v \<longrightarrow> sint (fst (ms_8ch_servo_get_rate servo')) = 24000) \<and>
     (uint v < 94 \<longrightarrow> sint (fst (ms_8ch_servo_get_rate servo')) = 0) \<and>
     (94 \<le> uint v \<and> uint v < 24000 \<longrightarrow>
        uint v \<le> sint (fst (ms_8ch_servo_get_rate servo')) \<and>
        (\<exists>q>0. sint (fst (ms_8ch_servo_get_rate servo')) = 24000 div q) \<and>
        (\<forall>q>0. uint v \<le> 24000 div q \<longrightarrow> sint (fst (ms_8ch_servo_get_rate servo')) \<le> 24000 div q)))"
proof (intro conjI impI)
  show "xfers (client (snd (ms_8ch_servo_set_rate servo v))) =
     xfers (client servo) @ [WriteWord (set_rate_reg (servo_id servo)) (ucast (rate_to_period v))]"
    by (simp add: ms_8ch_servo_set_rate_def i2c_smbus_write_word_data_def Let_def)
  have "uint (ucast (rate_to_period v) :: u16) = uint (ucast (ucast (rate_to_period v) :: u16) :: s32)"
    by (simp add: uint_up_ucast is_up)
  then show "uint (ucast (rate_to_period v) :: u16) =
     (if 24000 \<le> uint v then 1 else if uint v < 94 then 0 else 24000 div uint v)"
    by (simp only: period_u16 uint_rate_to_period)
next
  assume "read_word_result (client servo') (get_rate_reg (servo_id servo')) =
       ucast (ucast (rate_to_period v) :: u16)"
  then have rd: "read_word_result (client servo') (get_rate_reg (servo_id servo')) = rate_to_period v"
    by (simp only: period_u16)
  have nn: "0 \<le> sint (rate_to_period v)"
    by (simp add: sint_period)
  note g = get_rate_of_period [OF rd nn]
  {
    assume "24000 \<le> uint v"
    then show "sint (fst (ms_8ch_servo_get_rate servo')) = 24000"
      by (simp add: g sint_period uint_rate_to_period)
  next
    assume "uint v < 94"
    then show "sint (fst (ms_8ch_servo_get_rate servo')) = 0"
      by (simp add: g sint_period uint_rate_to_period)
  next
    assume r: "94 \<le> uint v \<and> uint v < 24000"
    then have r1: "94 \<le> uint v" and r2: "uint v < 24000" by simp_all
    have p: "sint (rate_to_period v) = 24000 div uint v"
      using r by (simp add: sint_period uint_rate_to_period)
    have "24000 div uint v \<noteq> 0"
      using round_trip_int(1) [OF r1 r2] by simp
    then have rt: "sint (fst (ms_8ch_servo_get_rate servo')) = 24000 div (24000 div uint v)"
      by (simp add: g p)
    show "uint v \<le> sint (fst (ms_8ch_servo_get_rate servo'))"
      using round_trip_int(3) [OF r1 r2] by (simp add: rt)
    have "0 < 24000 div uint v"
      using round_trip_int(1) [OF r1 r2] by simp
    then show "\<exists>q>0. sint (fst (ms_8ch_servo_get_rate servo')) = 24000 div q"
      using rt by blast
    show "\<forall>q>0. uint v \<le> 24000 div q \<longrightarrow> sint (fst (ms_8ch_servo_get_rate servo')) \<le> 24000 div q"
      using round_trip_int(4) [OF r1 r2] by (simp add: rt)
  }
qed

theorem set_rate_round_trip_witness:
  "read_word_result (client (servo_at 0 2)) (get_rate_reg (servo_id (servo_at 0 2))) =
     ucast (ucast (rate_to_period 9000) :: u16) \<and>
   (94::int) \<le> uint (9000::u32) \<and> uint (9000::u32) < (24000::int) \<and>
   xfers (client (snd (ms_8ch_servo_set_rate (servo_at 0 0) 9000))) = [WriteWord 0x52 2] \<and>
   uint (9000::u32) \<le> sint (fst (ms_8ch_servo_get_rate (servo_at 0 2))) \<and>
   (0::int) < 2 \<and> uint (9000::u32) \<le> (24000::int) div 2 \<and>
   sint (fst (ms_8ch_servo_get_rate (servo_at 0 2))) \<le> 24000 div 2 \<and>
   read_word_result (client (servo_at 0 1)) (get_rate_reg (servo_id (servo_at 0 1))) =
     ucast (ucast (rate_to_period 30000) :: u16) \<and>
   (24000::int) \<le> uint (30000::u32) \<and>
   sint (fst (ms_8ch_servo_get_rate (servo_at 0 1))) = 24000 \<and>
   read_word_result (client (servo_at 0 0)) (get_rate_reg (servo_id (servo_at 0 0))) =
     ucast (ucast (rate_to_period 50) :: u16) \<and>
   uint (50::u32) < (94::int) \<and>
   sint (fst (ms_8ch_servo_get_rate (servo_at 0 0))) = 0"
proof -
  note mid = set_rate_round_trip [of "servo_at 0 0" 9000 "servo_at 0 2"]
  have "\<forall>q>0. uint (9000::u32) \<le> 24000 div q \<longrightarrow>
          sint (fst (ms_8ch_servo_get_rate (servo_at 0 2))) \<le> 24000 div q"
    using mid by (simp add: servo_at_def rate_to_period_def)
  then have least: "sint (fst (ms_8ch_servo_get_rate (servo_at 0 2))) \<le> 24000 div 2"
    by (rule allE [of _ 2]) simp
  show ?thesis
    using mid least
      set_rate_round_trip [of "servo_at 0 0" 30000 "servo_at 0 1"]
      set_rate_round_trip [of "servo_at 0 0" 50 "servo_at 0 0"]
    by (simp add: servo_at_def rate_to_period_def set_rate_reg_def)
qed

text \<open>
  C8 as stated fails: a request of 9000 is written as period 2 and read back as 12000,
  while period 3, which a request of 8000 writes, reads back as 8000 and is nearer.
\<close>

theorem set_rate_round_trip_not_nearest:
  "xfers (client (snd (ms_8ch_servo_set_rate (servo_at 0 0) 9000))) = [WriteWord 0x52 2] \<and>
   sint (fst (ms_8ch_servo_get_rate (servo_at 0 2))) = 12000 \<and>
   xfers (client (snd (ms_8ch_servo_set_rate (servo_at 0 0) 8000))) = [WriteWord 0x52 3] \<and>
   sint (fst (ms_8ch_servo_get_rate (servo_at 0 3))) = 8000 \<and>
   \<bar>8000 - 9000\<bar> < \<bar>12000 - (9000::int)\<bar>"
  by (simp add: ms_8ch_servo_set_rate_def ms_8ch_servo_get_rate_def servo_at_def
      i2c_smbus_write_word_data_def i2c_smbus_read_word_data_def rate_to_period_def
      set_rate_reg_def get_rate_reg_def s32_div_def Let_def word_sless_alt)

section \<open>Tilt lookup of the Absolute-IMU\<close>

lemma tilt_length: "length ms_imu_tilt2deg = 256"
  by (simp add: ms_imu_tilt2deg_def)

lemma u8_lt_256: "unat (b::u8) < 256"
  using unsigned_less [of b, where ?'a = nat] by simp

lemma tilt_sorted: "sorted ms_imu_tilt2deg"
  unfolding ms_imu_tilt2deg_def
  by (simp only: sorted2 sorted1) simp

lemma tilt_bounded: "\<forall>x \<in> set ms_imu_tilt2deg. x \<le> 180"
  by (simp add: ms_imu_tilt2deg_def)

text \<open>
  C2.  The tilt table has exactly 256 entries, is non-decreasing, and every entry lies in
  [0, 180]; for every raw byte b at the requested index the tilt scale function uses b
  as the table index (always inside the table), stores table[b] and returns 0.
\<close>

theorem tilt_table_lookup:
  "length ms_imu_tilt2deg = 256 \<and> sorted ms_imu_tilt2deg \<and>
   (\<forall>x \<in> set ms_imu_tilt2deg. 0 \<le> x \<and> x \<le> 180) \<and>
   (\<forall>b. unat index < length (raw_data minfo) \<and> raw_data minfo ! unat index = b \<longrightarrow>
       unat b < length ms_imu_tilt2deg \<and>
       ms_imu_scale context minfo index = Some (0, ucast (ms_imu_tilt2deg ! unat b)))"
proof (intro conjI)
  show "length ms_imu_tilt2deg = 256" by (fact tilt_length)
  show "sorted ms_imu_tilt2deg" by (fact tilt_sorted)
  show "\<forall>x \<in> set ms_imu_tilt2deg. 0 \<le> x \<and> x \<le> 180"
    using tilt_bounded by simp
  show "\<forall>b. unat index < length (raw_data minfo) \<and> raw_data minfo ! unat index = b \<longrightarrow>
       unat b < length ms_imu_tilt2deg \<and>
       ms_imu_scale context minfo index = Some (0, ucast (ms_imu_tilt2deg ! unat b))"
    using u8_lt_256 by (simp add: ms_imu_scale_def tilt_length)
qed

lemma tilt_128: "ms_imu_tilt2deg ! 128 = 90"
  by (simp add: ms_imu_tilt2deg_def)

theorem tilt_table_lookup_witness:
  "unat (1::u8) < length (raw_data ((ms_absolute_imu_mode_info ! 0)\<lparr>raw_data := [0, 128, 255]\<rparr>)) \<and>
   raw_data ((ms_absolute_imu_mode_info ! 0)\<lparr>raw_data := [0, 128, 255]\<rparr>) ! unat (1::u8) = 128 \<and>
   (128::u8) \<in> set ms_imu_tilt2deg \<and>
   ms_imu_scale () ((ms_absolute_imu_mode_info ! 0)\<lparr>raw_data := [0, 128, 255]\<rparr>) 1 = Some (0, 90)"
proof -
  have m: "(128::u8) \<in> set ms_imu_tilt2deg"
    by (simp add: ms_imu_tilt2deg_def)
  show ?thesis
    using tilt_table_lookup [of 1 "(ms_absolute_imu_mode_info ! 0)\<lparr>raw_data := [0, 128, 255]\<rparr>" "()"] m
    by (simp add: tilt_128)
qed

section \<open>Gyro range of the Absolute-IMU\<close>

lemma gyro_update_nth:
  "mode_info (sensor (set_gyro_range s a b)) ! i =
     (if i = 4 \<and> 4 < length (mode_info (sensor s))
      then (mode_info (sensor s) ! 4)\<lparr>raw_max := a, si_max := b\<rparr>
      else mode_info (sensor s) ! i)"
proof (cases "4 < length (mode_info (sensor s))")
  case True
  then show ?thesis by (simp add: set_gyro_range_def nth_list_update)
next
  case False
  then show ?thesis by (simp add: set_gyro_range_def list_update_beyond)
qed

lemma gyro_update_rest:
  "length (mode_info (sensor (set_gyro_range s a b))) = length (mode_info (sensor s))"
  "mode (sensor (set_gyro_range s a b)) = mode (sensor s)"
  "callback_data (set_gyro_range s a b) = callback_data s"
  by (simp_all add: set_gyro_range_def)

lemma imu_post_cb_gyro:
  "\<exists>rmax smax. mode_info (sensor (ms_imu_send_cmd_post_cb s command)) ! 4 =
      (mode_info (sensor s) ! 4)\<lparr>raw_max := rmax, si_max := smax\<rparr>"
proof -
  have keep: "\<exists>rmax smax. mode_info (sensor s) ! 4 =
      (mode_info (sensor s) ! 4)\<lparr>raw_max := rmax, si_max := smax\<rparr>"
    by (intro exI [of _ "raw_max (mode_info (sensor s) ! 4)"]
              exI [of _ "si_max (mode_info (sensor s) ! 4)"]) simp
  have upd: "\<exists>rmax smax. mode_info (sensor (set_gyro_range s a b)) ! 4 =
      (mode_info (sensor s) ! 4)\<lparr>raw_max := rmax, si_max := smax\<rparr>" for a b
    using keep by (auto simp: gyro_update_nth)
  show ?thesis
    using keep upd by (simp add: ms_imu_send_cmd_post_cb_def)
qed

text \<open>
  C9.  The send-command post callback of the Absolute-IMU changes at most the fields
  \<open>raw_max\<close> and \<open>si_max\<close> of the gyro mode descriptor (mode index 4): for every command
  value every other mode descriptor, the selected mode and the private data are as
  before, and so are the name, data_sets, data_type, units, decimals, raw_min, si_min,
  scale function and raw data of the gyro mode descriptor.
\<close>

theorem imu_post_cb_frame:
  "(let s' = ms_imu_send_cmd_post_cb s command;
        g = mode_info (sensor s) ! 4;
        g' = mode_info (sensor s') ! 4
    in length (mode_info (sensor s')) = length (mode_info (sensor s)) \<and>
       mode (sensor s') = mode (sensor s) \<and>
       callback_data s' = callback_data s \<and>
       (\<forall>i. i \<noteq> 4 \<longrightarrow> mode_info (sensor s') ! i = mode_info (sensor s) ! i) \<and>
       name g' = name g \<and> data_sets g' = data_sets g \<and> data_type g' = data_type g \<and>
       units g' = units g \<and> decimals g' = decimals g \<and> raw_min g' = raw_min g \<and>
       si_min g' = si_min g \<and> scale g' = scale g \<and> raw_data g' = raw_data g)"
proof -
  obtain rmax smax where g: "mode_info (sensor (ms_imu_send_cmd_post_cb s command)) ! 4 =
      (mode_info (sensor s) ! 4)\<lparr>raw_max := rmax, si_max := smax\<rparr>"
    using imu_post_cb_gyro [of s command] by blast
  have rest: "length (mode_info (sensor (ms_imu_send_cmd_post_cb s command))) =
      length (mode_info (sensor s))"
    "mode (sensor (ms_imu_send_cmd_post_cb s command)) = mode (sensor s)"
    "callback_data (ms_imu_send_cmd_post_cb s command) = callback_data s"
    "\<forall>i. i \<noteq> 4 \<longrightarrow>
       mode_info (sensor (ms_imu_send_cmd_post_cb s command)) ! i = mode_info (sensor s) ! i"
    by (simp_all add: ms_imu_send_cmd_post_cb_def gyro_update_nth gyro_update_rest)
  show ?thesis
    using rest by (simp add: Let_def g)
qed

theorem imu_post_cb_frame_witness:
  "(0::nat) \<noteq> 4 \<and>
   mode_info (sensor (ms_imu_send_cmd_post_cb ms_absolute_imu 2)) ! 0 = ms_absolute_imu_mode_info ! 0 \<and>
   name (mode_info (sensor (ms_imu_send_cmd_post_cb ms_absolute_imu 2)) ! 4) = ''GYRO'' \<and>
   raw_max (mode_info (sensor (ms_imu_send_cmd_post_cb ms_absolute_imu 2)) ! 4) = 1000"
  using imu_post_cb_frame [of ms_absolute_imu 2]
  by (simp add: ms_absolute_imu_def ms_imu_send_cmd_post_cb_def set_gyro_range_def
      ms_absolute_imu_mode_info_def)

text \<open>
  C1 on the code.  The command table has ACCEL-2G, ACCEL-4G, ACCEL-8G, ACCEL-16G at
  indices 2, 3, 4, 5, and the callback's comments attach (10000, 875) to ACCEL-2G and
  (1000, 175) to ACCEL-4G, but its \<open>case\<close> labels are 1, 2, 4, 5.  On a freshly bound
  sensor, command 3 (ACCEL-4G) leaves the pair at its initial (10000, 875); command 2
  (ACCEL-2G) sets the pair of ACCEL-4G; and command 1 (END-COMP-CAL), which is no range
  command, sets the pair back.
\<close>

theorem imu_accel_4g_ignored:
  "ms_absolute_imu_cmd_info ! 3 = ''ACCEL-4G'' \<and>
   designated_pair ''ACCEL-4G'' = Some (1000, 175) \<and>
   gyro_pair ms_absolute_imu = (10000, 875) \<and>
   gyro_pair (ms_imu_send_cmd_post_cb ms_absolute_imu 3) = (10000, 875) \<and>
   ms_absolute_imu_cmd_info ! 2 = ''ACCEL-2G'' \<and>
   designated_pair ''ACCEL-2G'' = Some (10000, 875) \<and>
   gyro_pair (ms_imu_send_cmd_post_cb ms_absolute_imu 2) = (1000, 175) \<and>
   ms_absolute_imu_cmd_info ! 1 = ''END-COMP-CAL'' \<and>
   gyro_pair (ms_imu_send_cmd_post_cb (ms_imu_send_cmd_post_cb ms_absolute_imu 2) 1) = (10000, 875)"
  by (simp add: ms_absolute_imu_cmd_info_def designated_pair_def gyro_pair_def
      ms_absolute_imu_def ms_imu_send_cmd_post_cb_def set_gyro_range_def
      ms_absolute_imu_mode_info_def)

section \<open>Scaling of the XG1300L\<close>

lemma sint_scale_product:
  fixes x :: s16 and f :: u8
  shows "sint (scast x * ucast f :: s32) = sint x * uint f"
proof -
  have xb: "- (2 ^ 15) \<le> sint x" "sint x < 2 ^ 15"
    using sint_ge [of x] sint_lt [of x] by simp_all
  have fb: "0 \<le> uint f" "uint f < 2 ^ 8"
    using uint_lt2p [of f] by simp_all
  have "\<bar>sint x * uint f\<bar> \<le> 2 ^ 15 * 2 ^ 8"
    unfolding abs_mult using xb fb by (intro mult_mono) simp_all
  then have b: "- (2 ^ 31) \<le> sint x * uint f" "sint x * uint f < 2 ^ 31"
    by simp_all
  have "sint (scast x * ucast f :: s32) = signed_take_bit 31 (sint (scast x :: s32) * sint (ucast f :: s32))"
    by (simp add: sint_word_ariths)
  also have "sint (scast x :: s32) = sint x"
    by (simp add: sint_up_scast is_up)
  also have "sint (ucast f :: s32) = uint f"
  proof -
    have u: "uint (ucast f :: s32) = uint f"
      by (simp add: uint_up_ucast is_up)
    then have "uint (ucast f :: s32) < 2 ^ 31"
      using fb by simp
    then show ?thesis
      using u by (simp only: sint_small)
  qed
  also have "signed_take_bit 31 (sint x * uint f) = sint x * uint f"
    using b by (intro signed_take_bit_int_eq_self)
  finally show ?thesis .
qed

lemma sint_le_bytes:
  fixes lo hi :: u8
  shows "sint (word_cat hi lo :: s16) =
           (if 256 * uint hi + uint lo < 32768 then 256 * uint hi + uint lo
            else 256 * uint hi + uint lo - 65536)"
proof -
  define K where "K = 256 * uint hi + uint lo"
  have lb: "0 \<le> uint lo" "uint lo < 256" and hb: "0 \<le> uint hi" "uint hi < 256"
    using uint_lt2p [of lo] uint_lt2p [of hi] by simp_all
  have "take_bit 8 (uint lo) = uint lo"
    using lb by (simp add: take_bit_int_eq_self)
  then have k: "concat_bit 8 (uint lo) (uint hi) = K"
    unfolding K_def by (simp only: concat_bit_eq push_bit_eq_mult) simp
  have "(word_cat hi lo :: s16) = word_of_int (concat_bit LENGTH(8) (uint lo) (uint hi))"
    by (rule word_cat_eq')
  then have c: "(word_cat hi lo :: s16) = word_of_int K"
    using k by simp
  have r: "0 \<le> K" "K < 65536"
    unfolding K_def using lb hb by simp_all
  have "sint (word_of_int K :: s16) =
          (K + 2 ^ (LENGTH(16) - 1)) mod 2 ^ LENGTH(16) - 2 ^ (LENGTH(16) - 1)"
    by (rule int_word_sint)
  also have "\<dots> = (K + 32768) mod 65536 - 32768"
    by simp
  also have "\<dots> = (if K < 32768 then K else K - 65536)"
  proof (cases "K < 32768")
    case True
    then have "(K + 32768) mod 65536 = K + 32768"
      using r by (intro mod_pos_pos_trivial) simp_all
    then show ?thesis using True by simp
  next
    case False
    have "K + 32768 = K - 32768 + 65536"
      by linarith
    then have "(K + 32768) mod 65536 = (K - 32768 + 65536) mod 65536"
      by (rule arg_cong)
    also have "\<dots> = (K - 32768) mod 65536"
      by (rule mod_add_self2)
    also have "\<dots> = K - 32768"
      using r False by (intro mod_pos_pos_trivial) simp_all
    finally show ?thesis using False by simp
  qed
  finally have "sint (word_cat hi lo :: s16) = (if K < 32768 then K else K - 65536)"
    by (simp only: c)
  then show ?thesis
    by (simp only: K_def)
qed

lemma xg1300l_cmd_factor:
  "(command = 0 \<or> command = 1 \<longrightarrow> callback_data (mi_xg1300l_send_cmd_post_cb data command) = 1) \<and>
   (command = 2 \<longrightarrow> callback_data (mi_xg1300l_send_cmd_post_cb data command) = 2) \<and>
   (command = 3 \<longrightarrow> callback_data (mi_xg1300l_send_cmd_post_cb data command) = 4)"
  by (simp add: mi_xg1300l_send_cmd_post_cb_def)

text \<open>
  C4.  The commands RESET and ACCEL-2G (0 and 1) set the scaling factor to 1, ACCEL-4G (2)
  sets it to 2 and ACCEL-8G (3) sets it to 4; outside the bypass case (mode 3 with index
  below 2) the scale function returns 0 and stores the signed 16-bit sample at the index
  times the current scaling factor, the product being exact in the 32-bit result.  The
  sample at index i is the two's complement reading of the raw bytes 2 i (low) and
  2 i + 1 (high).
\<close>

theorem xg1300l_scaling:
  "(command = 0 \<or> command = 1 \<longrightarrow> callback_data (mi_xg1300l_send_cmd_post_cb data command) = 1) \<and>
   (command = 2 \<longrightarrow> callback_data (mi_xg1300l_send_cmd_post_cb data command) = 2) \<and>
   (command = 3 \<longrightarrow> callback_data (mi_xg1300l_send_cmd_post_cb data command) = 4) \<and>
   (\<not> (mode (sensor data) = 3 \<and> index < 2) \<and> 2 * unat index + 1 < length (raw_data minfo) \<longrightarrow>
      (\<exists>v. mi_xg1300l_scale dflt data minfo index = Some (0, v) \<and>
           sint v = sint (word_cat (raw_data minfo ! (2 * unat index + 1))
                                   (raw_data minfo ! (2 * unat index)) :: s16) *
                    uint (callback_data data) \<and>
           sint v = (let u = 256 * uint (raw_data minfo ! (2 * unat index + 1)) +
                             uint (raw_data minfo ! (2 * unat index))
                     in if u < 32768 then u else u - 65536) * uint (callback_data data)))"
proof -
  let ?hi = "raw_data minfo ! (2 * unat index + 1)" and ?lo = "raw_data minfo ! (2 * unat index)"
  let ?v = "scast (raw_as_s16 (raw_data minfo) (unat index)) * ucast (callback_data data) :: s32"
  have a: "sint ?v = sint (word_cat ?hi ?lo :: s16) * uint (callback_data data)"
    by (simp only: sint_scale_product raw_as_s16_def)
  have b: "sint (word_cat ?hi ?lo :: s16) =
       (let u = 256 * uint ?hi + uint ?lo in if u < 32768 then u else u - 65536)"
    by (simp only: sint_le_bytes Let_def)
  have c: "sint ?v = (let u = 256 * uint ?hi + uint ?lo in if u < 32768 then u else u - 65536) *
             uint (callback_data data)"
    by (simp only: a b)
  have "\<exists>v. mi_xg1300l_scale dflt data minfo index = Some (0, v) \<and>
           sint v = sint (word_cat ?hi ?lo :: s16) * uint (callback_data data) \<and>
           sint v = (let u = 256 * uint ?hi + uint ?lo in if u < 32768 then u else u - 65536) *
             uint (callback_data data)"
    if "\<not> (mode (sensor data) = 3 \<and> index < 2) \<and> 2 * unat index + 1 < length (raw_data minfo)"
  proof (intro exI [of _ ?v] conjI)
    show "mi_xg1300l_scale dflt data minfo index = Some (0, ?v)"
      using that by (auto simp: mi_xg1300l_scale_def)
  qed (fact a, fact c)
  then show ?thesis
    using xg1300l_cmd_factor [of command data] by blast
qed

theorem xg1300l_scaling_witness:
  "(3::u8) = 3 \<and> mi_cruizcore_xg1300l_cmd_info ! 3 = ''ACCEL-8G'' \<and>
   callback_data (mi_xg1300l_send_cmd_post_cb (mi_cruizcore_xg1300l 2 [16, 0, 0, 1, 254, 255]) 3) = 4 \<and>
   \<not> (mode (sensor (mi_cruizcore_xg1300l 2 [16, 0, 0, 1, 254, 255])) = 3 \<and> (1::u8) < 2) \<and>
   2 * unat (1::u8) + 1 < length [16, 0, 0, 1, 254, 255 :: u8] \<and>
   mi_xg1300l_scale (\<lambda>mi i. None)
     (mi_xg1300l_send_cmd_post_cb (mi_cruizcore_xg1300l 2 [16, 0, 0, 1, 254, 255]) 3)
     (zero_mode_info\<lparr>raw_data := [16, 0, 0, 1, 254, 255]\<rparr>) 1 = Some (0, 1024) \<and>
   2 * unat (2::u8) + 1 < length [16, 0, 0, 1, 254, 255 :: u8] \<and>
   mi_xg1300l_scale (\<lambda>mi i. None)
     (mi_xg1300l_send_cmd_post_cb (mi_cruizcore_xg1300l 2 [16, 0, 0, 1, 254, 255]) 3)
     (zero_mode_info\<lparr>raw_data := [16, 0, 0, 1, 254, 255]\<rparr>) 2 = Some (0, - 8)"
  using xg1300l_scaling [of 3 "mi_cruizcore_xg1300l 2 [16, 0, 0, 1, 254, 255]" 1
      "zero_mode_info\<lparr>raw_data := [16, 0, 0, 1, 254, 255]\<rparr>" "\<lambda>mi i. None"]
  by (simp add: mi_cruizcore_xg1300l_def mi_xg1300l_probe_cb_def mi_xg1300l_send_cmd_post_cb_def
      mi_xg1300l_scale_def raw_as_s16_def word_cat_eq mi_cruizcore_xg1300l_cmd_info_def)

text \<open>
  C5.  In the combined mode ALL (mode 3) the indices 0 and 1 return what
  \<open>lego_sensor_default_scale\<close> returns, although the custom scale function is installed
  for the mode; for every other mode or index the multiplicative scaling is applied.
\<close>

theorem xg1300l_all_mode_bypass:
  "(mode (sensor data) = 3 \<and> index < 2 \<longrightarrow>
      mi_xg1300l_scale dflt data minfo index = dflt minfo index) \<and>
   (\<not> (mode (sensor data) = 3 \<and> index < 2) \<longrightarrow>
      mi_xg1300l_scale dflt data minfo index =
        (if 2 * unat index + 1 < length (raw_data minfo)
         then Some (0, scast (raw_as_s16 (raw_data minfo) (unat index)) * ucast (callback_data data))
         else None))"
  by (simp add: mi_xg1300l_scale_def)

theorem xg1300l_all_mode_bypass_witness:
  "mode (sensor (mi_cruizcore_xg1300l 3 [16, 0, 254, 255, 3, 0])) = 3 \<and> (1::u8) < 2 \<and>
   \<not> (2::u8) < 2 \<and>
   mi_xg1300l_scale (\<lambda>mi i. Some (0, 12345)) (mi_cruizcore_xg1300l 3 [16, 0, 254, 255, 3, 0])
     (zero_mode_info\<lparr>raw_data := [16, 0, 254, 255, 3, 0]\<rparr>) 1 = Some (0, 12345) \<and>
   mi_xg1300l_scale (\<lambda>mi i. Some (0, 12345)) (mi_cruizcore_xg1300l 3 [16, 0, 254, 255, 3, 0])
     (zero_mode_info\<lparr>raw_data := [16, 0, 254, 255, 3, 0]\<rparr>) 2 = Some (0, 3)"
  using xg1300l_all_mode_bypass [of "mi_cruizcore_xg1300l 3 [16, 0, 254, 255, 3, 0]" 1
      "\<lambda>mi i. Some (0, 12345)" "zero_mode_info\<lparr>raw_data := [16, 0, 254, 255, 3, 0]\<rparr>"]
    xg1300l_all_mode_bypass [of "mi_cruizcore_xg1300l 3 [16, 0, 254, 255, 3, 0]" 2
      "\<lambda>mi i. Some (0, 12345)" "zero_mode_info\<lparr>raw_data := [16, 0, 254, 255, 3, 0]\<rparr>"]
  by (simp add: mi_cruizcore_xg1300l_def mi_xg1300l_probe_cb_def raw_as_s16_def)

section \<open>Mode setting of the EV3 analog sensor\<close>

lemma set_mode_legoev3_checked:
  "(m \<ge> as_num_modes as \<longrightarrow> ev3_analog_sensor_set_mode_legoev3 as m = (- EINVAL, as)) \<and>
   (m < as_num_modes as \<longrightarrow> fst (ev3_analog_sensor_set_mode_legoev3 as m) = 0 \<and>
      as_mode (snd (ev3_analog_sensor_set_mode_legoev3 as m)) = m)"
  by (auto simp: ev3_analog_sensor_set_mode_legoev3_def Let_def)

text \<open>
  C6 on the code.  The older driver rejects a mode index at or above the number of modes
  with \<open>-EINVAL\<close> before it touches the port and returns 0 otherwise.  In the
  current driver, setting the valid mode 0 of a one-mode sensor hands the buffer of that
  mode to the port and then returns \<open>-EINVAL\<close>; setting the invalid mode 5 reaches the
  port as well before it returns.
\<close>

theorem ev3_analog_set_mode_rejects_valid:
  "(0::u8) < info_num_modes one_mode_sensor \<and>
   ev3_analog_sensor_set_mode sz one_mode_sensor 0 =
     (- EINVAL, one_mode_sensor\<lparr>ldev_port := [Set_raw_data_ptr_and_func 0 (sz zero_mode_info)]\<rparr>) \<and>
   - EINVAL \<noteq> (0::s32) \<and>
   ev3_analog_sensor_set_mode_legoev3 one_mode_sensor_legoev3 0 =
     (0, one_mode_sensor_legoev3\<lparr>in_port := [Set_pin5_gpio 0, Register_analog_cb EV3_ANALOG_SENSOR_CB]\<rparr>) \<and>
   (5::u8) \<ge> info_num_modes one_mode_sensor \<and>
   ldev_port (snd (ev3_analog_sensor_set_mode sz one_mode_sensor 5)) \<noteq> [] \<and>
   ev3_analog_sensor_set_mode_legoev3 one_mode_sensor_legoev3 5 = (- EINVAL, one_mode_sensor_legoev3)"
  by (simp add: ev3_analog_sensor_set_mode_def ev3_analog_sensor_set_mode_legoev3_def
      one_mode_sensor_def one_mode_sensor_legoev3_def EINVAL_def Let_def)

end
